theory Spec2Isabelle
  imports Complex_Main
begin

section \<open>The SIP user agent of \<^verbatim>\<open>src/UA.js\<close>\<close>

text \<open>
  The user agent is one JavaScript object whose methods run to completion one after the
  other. Its fields become a record, each method becomes a function from the state to the
  calls it issues and the state it leaves, and a \<^verbatim>\<open>throw\<close> becomes a value. Calls on
  collaborators (the request, transactions, sessions, dialogs, the registrator, the
  transport, the event emitter) are recorded in the order the method issues them; what a
  collaborator does inside is not part of this source. Console output is left out.
\<close>

subsection \<open>Data\<close>

text \<open>
  An entry of \<^verbatim>\<open>configuration.outbound_proxy_set\<close>. \<^verbatim>\<open>status\<close> is a bare number in
  the source: \<^verbatim>\<open>loadConfig\<close> writes the literal 0, \<^verbatim>\<open>getNextWsServer\<close> tests against
  the literal 2, the transport handlers write named constants.
\<close>

record ws_server =
  ws_uri :: string
  weight :: int
  status :: int

text \<open>
  Modelled from the spec: the table \<^verbatim>\<open>JsSIP.c\<close> is not in the source. The three
  connection statuses and the reply texts it names are taken as parameters; nothing is
  assumed about their values.
\<close>

record jssip_c =
  WS_SERVER_READY :: int
  WS_SERVER_DISCONNECTED :: int
  WS_SERVER_ERROR :: int
  REASON_200 :: string
  REASON_404 :: string
  REASON_405 :: string
  REASON_410 :: string
  REASON_481 :: string
  ALLOWED_METHODS :: string
  ACCEPTED_BODY_TYPES :: string

text \<open>
  Modelled from the spec: \<^verbatim>\<open>JsSIP.c.UA_STATUS_*\<close>, the two error causes and the method
  names are constants of the absent table; the spec gives them as enumerations, so they
  are distinct constructors here. A method the dispatcher does not name is \<open>OTHER\<close>.
\<close>

datatype ua_status = UA_STATUS_INIT | UA_STATUS_READY | UA_STATUS_USER_CLOSED | UA_STATUS_NOT_READY

datatype ua_error = UA_CONFIGURATION_ERROR | UA_NETWORK_ERROR

datatype sip_method = INVITE | ACK | OPTIONS | MESSAGE | BYE | CANCEL | NOTIFY | OTHER string

datatype session = Session nat
datatype dialog = Dialog nat
datatype applicant = Applicant nat
datatype transaction = Transaction nat

text \<open>
  A transport holds a reference to the pool entry it was created for; writing
  \<^verbatim>\<open>transport.server.status\<close> changes the entry in the pool. The reference is the
  entry's position in the pool.
\<close>

record transport =
  server :: nat

record registrator =
  registered :: bool

record configuration =
  user :: "string option"
  domain :: string
  auto_register :: bool
  outbound_proxy_set :: "ws_server list"

text \<open>
  The registries are plain JavaScript objects (\<^verbatim>\<open>{}\<close>) used as dictionaries and walked
  with \<^verbatim>\<open>for ... in\<close>. Their own properties are association lists in insertion order;
  the values stored are objects, hence truthy. What a read by key gives is defined with
  the lookups below.
\<close>

record ua =
  configuration :: configuration
  dialogs :: "(string \<times> dialog) list"
  registrator :: "registrator option"
  applicants :: "(string \<times> applicant) list"
  sessions :: "(string \<times> session) list"
  transport :: "transport option"
  pub_gruu :: "string option"
  ua_status :: ua_status
  ua_error :: "ua_error option"
  nist :: "(string \<times> transaction) list"
  nict :: "(string \<times> transaction) list"
  ist :: "(string \<times> transaction) list"
  ict :: "(string \<times> transaction) list"
  shutdownGraceTimer :: bool

record request =
  "method" :: sip_method
  ruri_user :: "string option"
  call_id :: string
  from_tag :: "string option"
  to_tag :: "string option"

datatype exn = NotReadyError | WebRtcNotSupportedError | InvalidTargetError | TypeError

datatype completion = Normal | Throw exn

text \<open>The calls a method issues on its collaborators, in order.\<close>

datatype event =
    Reply_sl nat string
  | Reply nat string "(string \<times> string) list"
  | CheckTransaction
  | NewInviteServerTransaction
  | NewNonInviteServerTransaction
  | MessageReceiver
  | NewIncomingSession
  | FindSession
  | FindDialog
  | SessionReceiveRequest session
  | DialogReceiveRequest dialog
  | SessionTerminate session
  | SessionOnTransportError session
  | ApplicantClose applicant
  | TransactionOnTransportError transaction
  | RegistratorRegister
  | RegistratorDeregister bool
  | RegistratorClose
  | RegistratorOnTransportConnected
  | RegistratorOnTransportClosed
  | NewRegistrator
  | NewTransport "nat option"
  | TransportConnect
  | SetTimeoutTransportDisconnect nat
  | NewOutgoingSession string
  | NewMessageSender string
  | Emit string

subsection \<open>Failover selection\<close>

text \<open>
  One round of the loop of \<^verbatim>\<open>getNextWsServer\<close>: \<open>p\<close> is the entry at hand with its
  position, \<open>candidates\<close> the local array.
\<close>

definition pushCandidate :: "(nat \<times> ws_server) list \<Rightarrow> nat \<times> ws_server \<Rightarrow> (nat \<times> ws_server) list" where
  "pushCandidate candidates p =
     (if status (snd p) = 2 then candidates
      else if length candidates = 0 then candidates @ [p]
      else if weight (snd p) > weight (snd (candidates ! 0)) then [p]
      else if weight (snd p) = weight (snd (candidates ! 0)) then candidates @ [p]
      else candidates)"

definition collectCandidates :: "ws_server list \<Rightarrow> (nat \<times> ws_server) list" where
  "collectCandidates pool = foldl pushCandidate [] (enumerate 0 pool)"

text \<open>
  \<open>r\<close> is the value of \<^verbatim>\<open>Math.random()\<close>. Reading the array beyond its end gives
  \<^verbatim>\<open>undefined\<close>, here \<open>None\<close>. The method writes no field: the state is returned as
  it came.
\<close>

definition getNextWsServer :: "real \<Rightarrow> ua \<Rightarrow> nat option \<times> ua" where
  "getNextWsServer r u =
     (let candidates = collectCandidates (outbound_proxy_set (configuration u));
          idx = \<lfloor>r * real (length candidates)\<rfloor>
      in if 0 \<le> idx \<and> idx < int (length candidates)
         then (Some (fst (candidates ! nat idx)), u)
         else (None, u))"

subsection \<open>Registries\<close>

text \<open>
  A tag that is absent is \<^verbatim>\<open>undefined\<close>; string concatenation turns it into the text
  \<^verbatim>\<open>undefined\<close>, and a test on it is false for the absent and for the empty tag.
\<close>

definition js_string :: "string option \<Rightarrow> string" where
  "js_string t = (case t of None \<Rightarrow> ''undefined'' | Some s \<Rightarrow> s)"

definition truthy :: "string option \<Rightarrow> bool" where
  "truthy t = (case t of None \<Rightarrow> False | Some s \<Rightarrow> s \<noteq> [])"

text \<open>
  Reading \<^verbatim>\<open>obj[key]\<close> on a plain object gives the own property if there is one, and
  otherwise the member of \<^verbatim>\<open>Object.prototype\<close> of that name if there is one (they are
  not enumerable, so \<^verbatim>\<open>for ... in\<close> passes over them), and otherwise
  \<^verbatim>\<open>undefined\<close>. The members are functions, and for \<^verbatim>\<open>__proto__\<close> the prototype
  object: all truthy, none has a method \<^verbatim>\<open>receiveRequest\<close>. The first seven names are
  the standard ones, the last five those every browser adds.
\<close>

definition Object_prototype :: "string list" where
  "Object_prototype =
     [''constructor'', ''toString'', ''toLocaleString'', ''valueOf'', ''hasOwnProperty'',
      ''isPrototypeOf'', ''propertyIsEnumerable'',
      ''__proto__'', ''__defineGetter__'', ''__defineSetter__'', ''__lookupGetter__'',
      ''__lookupSetter__'']"

datatype 'a member = Stored 'a | Inherited string

definition get_property :: "(string \<times> 'a) list \<Rightarrow> string \<Rightarrow> 'a member option" where
  "get_property obj key =
     (case map_of obj key of
        Some v \<Rightarrow> Some (Stored v)
      | None \<Rightarrow> if key \<in> set Object_prototype then Some (Inherited key) else None)"

text \<open>
  The two lookups return the truthy value they read, whatever it is, and \<^verbatim>\<open>null\<close>
  (here \<open>None\<close>) otherwise.
\<close>

definition findSession :: "ua \<Rightarrow> request \<Rightarrow> session member option" where
  "findSession u req =
     (let sessionIDa = call_id req @ js_string (from_tag req);
          sessionA = get_property (sessions u) sessionIDa;
          sessionIDb = call_id req @ js_string (to_tag req);
          sessionB = get_property (sessions u) sessionIDb
      in case sessionA of
           Some a \<Rightarrow> Some a
         | None \<Rightarrow> (case sessionB of Some b \<Rightarrow> Some b | None \<Rightarrow> None))"

definition findDialog :: "ua \<Rightarrow> request \<Rightarrow> dialog member option" where
  "findDialog u req =
     (let id = call_id req @ js_string (from_tag req) @ js_string (to_tag req)
      in case get_property (dialogs u) id of
           Some d \<Rightarrow> Some d
         | None \<Rightarrow>
             (let id = call_id req @ js_string (to_tag req) @ js_string (from_tag req)
              in case get_property (dialogs u) id of Some d \<Rightarrow> Some d | None \<Rightarrow> None))"

subsection \<open>Request reception\<close>

text \<open>
  What the absent collaborators answer: the transaction layer's duplicate check, the
  media capability test, the target normaliser and the registrator a constructor call
  gives.
\<close>

record env =
  checkTransaction :: "ua \<Rightarrow> request \<Rightarrow> bool"
  isWebRtcSupported :: bool
  normalizeUri :: "string \<Rightarrow> string \<Rightarrow> string option"
  Registrator_new :: registrator

text \<open>
  The branch \<^verbatim>\<open>if(!request.to_tag)\<close> of \<^verbatim>\<open>receiveRequest\<close>: how it completes and
  the calls it issues. Calling \<^verbatim>\<open>receiveRequest\<close> on a value that is not a session
  calls \<^verbatim>\<open>undefined\<close> and throws a \<open>TypeError\<close>.
\<close>

definition initialRequest :: "jssip_c \<Rightarrow> env \<Rightarrow> request \<Rightarrow> ua \<Rightarrow> completion \<times> event list" where
  "initialRequest c e req u =
     (case registrator u of
        None \<Rightarrow> (Normal, [Reply 410 (REASON_410 c) []])
      | Some rg \<Rightarrow>
          if \<not> registered rg then (Normal, [Reply 410 (REASON_410 c) []])
          else (case method req of
                  MESSAGE \<Rightarrow> (Normal, [MessageReceiver])
                | INVITE \<Rightarrow>
                    (if \<not> isWebRtcSupported e then (Normal, [])
                     else (Normal, [NewIncomingSession]))
                | BYE \<Rightarrow> (Normal, [Reply 481 (REASON_481 c) []])
                | CANCEL \<Rightarrow>
                    (case findSession u req of
                       Some (Stored s) \<Rightarrow> (Normal, [FindSession, SessionReceiveRequest s])
                     | Some (Inherited k) \<Rightarrow> (Throw TypeError, [FindSession])
                     | None \<Rightarrow> (Normal, [FindSession]))
                | ACK \<Rightarrow> (Normal, [])
                | _ \<Rightarrow> (Normal, [Reply 405 (REASON_405 c) []])))"

text \<open>The \<^verbatim>\<open>else\<close> branch: a request with a to tag.\<close>

definition inDialogRequest :: "jssip_c \<Rightarrow> request \<Rightarrow> ua \<Rightarrow> completion \<times> event list" where
  "inDialogRequest c req u =
     (case findDialog u req of
        Some (Stored d) \<Rightarrow> (Normal, [FindDialog, DialogReceiveRequest d])
      | Some (Inherited k) \<Rightarrow> (Throw TypeError, [FindDialog])
      | None \<Rightarrow>
          if method req = NOTIFY then
            (case findSession u req of
               Some (Stored s) \<Rightarrow> (Normal, [FindDialog, FindSession, SessionReceiveRequest s])
             | Some (Inherited k) \<Rightarrow> (Throw TypeError, [FindDialog, FindSession])
             | None \<Rightarrow>
                 (Normal,
                  [FindDialog, FindSession, Reply 481 ''Subscription does not exist'' []]))
          else if method req \<noteq> ACK then (Normal, [FindDialog, Reply 481 (REASON_481 c) []])
          else (Normal, [FindDialog]))"

text \<open>
  \<^verbatim>\<open>receiveRequest\<close>: how it completes, the calls it issues and the state it leaves. A
  reply without a headers argument carries the empty list. The method assigns no field
  of the user agent.
\<close>

definition receiveRequest ::
  "jssip_c \<Rightarrow> env \<Rightarrow> request \<Rightarrow> ua \<Rightarrow> completion \<times> event list \<times> ua" where
  "receiveRequest c e req u =
     (if ruri_user req \<noteq> user (configuration u)
      then (Normal, [Reply_sl 404 (REASON_404 c)], u)
      else if checkTransaction e u req then (Normal, [CheckTransaction], u)
      else
        (let created =
               (if method req = INVITE then [NewInviteServerTransaction]
                else if method req \<noteq> ACK then [NewNonInviteServerTransaction]
                else []);
             options =
               (if method req = OPTIONS
                then [Reply 200 (REASON_200 c)
                        [(''Allow'', ALLOWED_METHODS c), (''Accept'', ACCEPTED_BODY_TYPES c)]]
                else []);
             routed =
               (if \<not> truthy (to_tag req) then initialRequest c e req u
                else inDialogRequest c req u)
         in (fst routed, CheckTransaction # created @ options @ snd routed, u)))"

text \<open>The replies among the calls, and their status codes.\<close>

fun is_reply :: "event \<Rightarrow> bool" where
  "is_reply (Reply_sl _ _) = True"
| "is_reply (Reply _ _ _) = True"
| "is_reply _ = False"

fun reply_status :: "event \<Rightarrow> nat option" where
  "reply_status (Reply_sl n _) = Some n"
| "reply_status (Reply n _ _) = Some n"
| "reply_status _ = None"

definition replies :: "event list \<Rightarrow> event list" where
  "replies evs = filter is_reply evs"

subsection \<open>Public operations\<close>

definition register :: "ua \<Rightarrow> completion \<times> event list \<times> ua" where
  "register u =
     (if ua_status u = UA_STATUS_READY then
        (case registrator u of
           None \<Rightarrow> (Throw TypeError, [], u)
         | Some _ \<Rightarrow> (Normal, [RegistratorRegister], u))
      else (Throw NotReadyError, [], u))"

definition deregister :: "bool \<Rightarrow> ua \<Rightarrow> completion \<times> event list \<times> ua" where
  "deregister all u =
     (if ua_status u = UA_STATUS_READY then
        (case registrator u of
           None \<Rightarrow> (Throw TypeError, [], u)
         | Some _ \<Rightarrow> (Normal, [RegistratorDeregister all], u))
      else (Throw NotReadyError, [], u))"

definition isRegistered :: "ua \<Rightarrow> bool" where
  "isRegistered u = (case registrator u of None \<Rightarrow> False | Some rg \<Rightarrow> registered rg)"

definition call :: "env \<Rightarrow> string \<Rightarrow> ua \<Rightarrow> completion \<times> event list \<times> ua" where
  "call e target u =
     (if ua_status u \<noteq> UA_STATUS_READY then (Throw NotReadyError, [], u)
      else if \<not> isWebRtcSupported e then (Throw WebRtcNotSupportedError, [], u)
      else
        (let target = normalizeUri e target (domain (configuration u))
         in if \<not> truthy target then (Throw InvalidTargetError, [], u)
            else (Normal, [NewOutgoingSession (js_string target)], u)))"

definition message :: "env \<Rightarrow> string \<Rightarrow> ua \<Rightarrow> completion \<times> event list \<times> ua" where
  "message e target u =
     (if ua_status u \<noteq> UA_STATUS_READY then (Throw NotReadyError, [], u)
      else
        (let target = normalizeUri e target (domain (configuration u))
         in if \<not> truthy target then (Throw InvalidTargetError, [], u)
            else (Normal, [NewMessageSender (js_string target)], u)))"

text \<open>
  \<^verbatim>\<open>stop\<close>. The timer is set with the text \<^verbatim>\<open>'5000'\<close>, which the host reads as the
  number.
\<close>

definition stop :: "ua \<Rightarrow> completion \<times> event list \<times> ua" where
  "stop u =
     (if ua_status u \<noteq> UA_STATUS_READY then (Throw NotReadyError, [], u)
      else
        (Normal,
         (case registrator u of None \<Rightarrow> [] | Some _ \<Rightarrow> [RegistratorClose])
           @ map (\<lambda>kv. SessionTerminate (snd kv)) (sessions u)
           @ map (\<lambda>kv. ApplicantClose (snd kv)) (applicants u)
           @ [SetTimeoutTransportDisconnect 5000],
         u\<lparr>ua_status := UA_STATUS_USER_CLOSED, shutdownGraceTimer := True\<rparr>))"

text \<open>
  \<^verbatim>\<open>start\<close>. Resuming writes the status before it calls the transport, so a missing
  transport leaves the new status behind the exception.
\<close>

definition start :: "real \<Rightarrow> ua \<Rightarrow> completion \<times> event list \<times> ua" where
  "start r u =
     (if ua_status u = UA_STATUS_INIT then
        (case getNextWsServer r u of (srv, u') \<Rightarrow> (Normal, [NewTransport srv], u'))
      else if ua_status u = UA_STATUS_USER_CLOSED then
        (case transport u of
           None \<Rightarrow> (Throw TypeError, [], u\<lparr>ua_status := UA_STATUS_READY\<rparr>)
         | Some _ \<Rightarrow> (Normal, [TransportConnect], u\<lparr>ua_status := UA_STATUS_READY\<rparr>))
      else if ua_status u = UA_STATUS_READY then (Normal, [], u)
      else (Throw NotReadyError, [], u))"

definition networkIsReady :: "ua \<Rightarrow> completion \<times> event list \<times> ua" where
  "networkIsReady u =
     (if ua_status u = UA_STATUS_NOT_READY \<and> ua_error u = Some UA_NETWORK_ERROR then
        (case transport u of
           None \<Rightarrow> (Throw TypeError, [], u)
         | Some _ \<Rightarrow> (Normal, [TransportConnect], u))
      else (Normal, [], u))"

subsection \<open>Transport events\<close>

text \<open>The assignment \<^verbatim>\<open>transport.server.status = s\<close>, seen from the pool.\<close>

definition setServerStatus :: "transport \<Rightarrow> int \<Rightarrow> ua \<Rightarrow> ua" where
  "setServerStatus t s u =
     u\<lparr>configuration :=
         (configuration u)\<lparr>outbound_proxy_set :=
            (outbound_proxy_set (configuration u))
              [server t := (outbound_proxy_set (configuration u) ! server t)\<lparr>status := s\<rparr>]\<rparr>\<rparr>"

definition closeSessionsOnTransportError :: "ua \<Rightarrow> event list \<times> ua" where
  "closeSessionsOnTransportError u =
     (map (\<lambda>kv. SessionOnTransportError (snd kv)) (sessions u)
        @ (case registrator u of None \<Rightarrow> [] | Some _ \<Rightarrow> [RegistratorOnTransportClosed]),
      u)"

definition onTransportClosed :: "jssip_c \<Rightarrow> transport \<Rightarrow> ua \<Rightarrow> event list \<times> ua" where
  "onTransportClosed c t u =
     (let u1 = setServerStatus t (WS_SERVER_DISCONNECTED c) u;
          notified = map (\<lambda>kv. TransactionOnTransportError (snd kv))
                       (nict u1 @ ict u1 @ nist u1 @ ist u1)
      in if \<not> truthy (pub_gruu u1)
         then (case closeSessionsOnTransportError u1 of (evs, u2) \<Rightarrow> (notified @ evs, u2))
         else (notified, u1))"

definition onTransportError :: "jssip_c \<Rightarrow> real \<Rightarrow> transport \<Rightarrow> ua \<Rightarrow> event list \<times> ua" where
  "onTransportError c r t u =
     (let u1 = setServerStatus t (WS_SERVER_ERROR c) u
      in case getNextWsServer r u1 of
           (Some srv, u2) \<Rightarrow> ([NewTransport (Some srv)], u2)
         | (None, u2) \<Rightarrow>
             (case closeSessionsOnTransportError u2 of
                (evs, u3) \<Rightarrow>
                  (evs @ [Emit ''disconnect''],
                   u3\<lparr>ua_status := UA_STATUS_NOT_READY, ua_error := Some UA_NETWORK_ERROR\<rparr>)))"

definition onTransportConnected :: "jssip_c \<Rightarrow> env \<Rightarrow> transport \<Rightarrow> ua \<Rightarrow> event list \<times> ua" where
  "onTransportConnected c e t u =
     (let u1 = setServerStatus t (WS_SERVER_READY c) (u\<lparr>transport := Some t\<rparr>)
      in if ua_status u1 = UA_STATUS_USER_CLOSED then ([], u1)
         else
           (let (evs, u2) =
                  (if auto_register (configuration u1) then
                     (case registrator u1 of
                        Some _ \<Rightarrow> ([RegistratorOnTransportConnected], u1)
                      | None \<Rightarrow> ([NewRegistrator], u1\<lparr>registrator := Some (Registrator_new e)\<rparr>))
                   else ([], u1))
            in (evs @ [Emit ''connect''],
                u2\<lparr>ua_status := UA_STATUS_READY, ua_error := None\<rparr>)))"

subsection \<open>Construction and the states the engine can be in\<close>

text \<open>
  The constructor, when \<^verbatim>\<open>loadConfig\<close> accepts the settings: every pool entry starts
  with status 0, the registries are empty, the status is \<open>UA_STATUS_INIT\<close> and no error
  is recorded. A refused configuration makes the constructor throw, so no object comes to
  exist.
\<close>

definition UA_new :: "configuration \<Rightarrow> ua" where
  "UA_new cfg =
     \<lparr>configuration =
        cfg\<lparr>outbound_proxy_set := map (\<lambda>s. s\<lparr>status := 0\<rparr>) (outbound_proxy_set cfg)\<rparr>,
      dialogs = [], registrator = None, applicants = [], sessions = [], transport = None,
      pub_gruu = None, ua_status = UA_STATUS_INIT, ua_error = None,
      nist = [], nict = [], ist = [], ict = [], shutdownGraceTimer = False\<rparr>"

text \<open>
  The states reached from a constructed engine by its own methods, called in any order
  with any arguments, and by collaborators filling and emptying the registries, the
  transaction tables, the registration flag and the contact. Only the methods of this
  source write the status, the error cause and the pool.
\<close>

inductive reachable :: "jssip_c \<Rightarrow> ua \<Rightarrow> bool" for c :: jssip_c where
  r_new: "reachable c (UA_new cfg)"
| r_register: "reachable c u \<Longrightarrow> register u = (k, evs, u') \<Longrightarrow> reachable c u'"
| r_deregister: "reachable c u \<Longrightarrow> deregister b u = (k, evs, u') \<Longrightarrow> reachable c u'"
| r_call: "reachable c u \<Longrightarrow> call e target u = (k, evs, u') \<Longrightarrow> reachable c u'"
| r_message: "reachable c u \<Longrightarrow> message e target u = (k, evs, u') \<Longrightarrow> reachable c u'"
| r_stop: "reachable c u \<Longrightarrow> stop u = (k, evs, u') \<Longrightarrow> reachable c u'"
| r_start: "reachable c u \<Longrightarrow> start r u = (k, evs, u') \<Longrightarrow> reachable c u'"
| r_networkIsReady: "reachable c u \<Longrightarrow> networkIsReady u = (k, evs, u') \<Longrightarrow> reachable c u'"
| r_closed: "reachable c u \<Longrightarrow> onTransportClosed c t u = (evs, u') \<Longrightarrow> reachable c u'"
| r_error: "reachable c u \<Longrightarrow> onTransportError c r t u = (evs, u') \<Longrightarrow> reachable c u'"
| r_connected: "reachable c u \<Longrightarrow> onTransportConnected c e t u = (evs, u') \<Longrightarrow> reachable c u'"
| r_request: "reachable c u \<Longrightarrow> receiveRequest c e req u = (k, evs, u') \<Longrightarrow> reachable c u'"
| r_collaborators:
    "reachable c u \<Longrightarrow>
     reachable c
       (u\<lparr>dialogs := ds, sessions := ss, applicants := as,
          nist := t1, nict := t2, ist := t3, ict := t4, pub_gruu := g,
          registrator := map_option (\<lambda>rg. rg\<lparr>registered := b\<rparr>) (registrator u)\<rparr>)"

code_pred reachable .

subsection \<open>Reading a trace\<close>

text \<open>
  Calls that only ask a question: the duplicate check and the two registry lookups.
  Everything else among the calls acts on a collaborator.
\<close>

fun is_query :: "event \<Rightarrow> bool" where
  "is_query CheckTransaction = True"
| "is_query FindSession = True"
| "is_query FindDialog = True"
| "is_query _ = False"

definition actions :: "event list \<Rightarrow> event list" where
  "actions evs = filter (\<lambda>ev. \<not> is_query ev) evs"

definition replies_with :: "nat \<Rightarrow> event list \<Rightarrow> event list" where
  "replies_with n evs = filter (\<lambda>ev. reply_status ev = Some n) evs"

text \<open>The request of \<open>req\<close> with the roles of its two tags exchanged.\<close>

definition swap_tags :: "request \<Rightarrow> request" where
  "swap_tags req = req\<lparr>from_tag := to_tag req, to_tag := from_tag req\<rparr>"

text \<open>The entries \<^verbatim>\<open>getNextWsServer\<close> passes over, and the best weight among the others.\<close>

definition excluded :: "ws_server \<Rightarrow> bool" where
  "excluded s = (status s = 2)"

definition max_weight :: "ws_server list \<Rightarrow> int" where
  "max_weight pool = Max (weight ` {s \<in> set pool. \<not> excluded s})"

subsection \<open>Sample values\<close>

definition sample_c :: jssip_c where
  "sample_c =
     \<lparr>WS_SERVER_READY = 0, WS_SERVER_DISCONNECTED = 1, WS_SERVER_ERROR = 2,
      REASON_200 = ''OK'', REASON_404 = ''Not Found'', REASON_405 = ''Method Not Allowed'',
      REASON_410 = ''Gone'', REASON_481 = ''Call/Transaction Does Not Exist'',
      ALLOWED_METHODS = ''ACK,CANCEL,BYE,OPTIONS,INVITE,MESSAGE'',
      ACCEPTED_BODY_TYPES = ''application/sdp''\<rparr>"

definition sample_env :: env where
  "sample_env =
     \<lparr>checkTransaction = (\<lambda>u req. False), isWebRtcSupported = True,
      normalizeUri = (\<lambda>target dom. if target = [] then None else Some (target @ ''@'' @ dom)),
      Registrator_new = \<lparr>registered = False\<rparr>\<rparr>"

definition sample_pool :: "ws_server list" where
  "sample_pool =
     [\<lparr>ws_uri = ''ws://a.example.org/'', weight = 1, status = 0\<rparr>,
      \<lparr>ws_uri = ''ws://b.example.org/'', weight = 5, status = 2\<rparr>,
      \<lparr>ws_uri = ''ws://c.example.org/'', weight = 3, status = 0\<rparr>,
      \<lparr>ws_uri = ''ws://d.example.org/'', weight = 3, status = 1\<rparr>]"

definition sample_cfg :: configuration where
  "sample_cfg =
     \<lparr>user = Some ''alice'', domain = ''example.org'', auto_register = True,
      outbound_proxy_set = sample_pool\<rparr>"

text \<open>An engine that is connected and registered, with one session and one dialog.\<close>

definition sample_ua :: ua where
  "sample_ua =
     \<lparr>configuration = sample_cfg,
      dialogs = [(''c1'' @ ''ta'' @ ''tb'', Dialog 1)],
      registrator = Some \<lparr>registered = True\<rparr>,
      applicants = [(''m1'', Applicant 1)],
      sessions = [(''c1'' @ ''ta'', Session 1), (''c1'' @ ''tb'', Session 1)],
      transport = Some \<lparr>server = 2\<rparr>,
      pub_gruu = None, ua_status = UA_STATUS_READY, ua_error = None,
      nist = [], nict = [], ist = [], ict = [], shutdownGraceTimer = False\<rparr>"

definition sample_request :: "sip_method \<Rightarrow> string option \<Rightarrow> request" where
  "sample_request m tt =
     \<lparr>method = m, ruri_user = Some ''alice'', call_id = ''c9'', from_tag = Some ''tx'',
      to_tag = tt\<rparr>"

abbreviation pool_of :: "ua \<Rightarrow> ws_server list" where
  "pool_of u \<equiv> outbound_proxy_set (configuration u)"

text \<open>The sample engine after every entry of its pool has failed.\<close>

definition exhausted_ua :: ua where
  "exhausted_ua =
     sample_ua\<lparr>configuration :=
       sample_cfg\<lparr>outbound_proxy_set := map (\<lambda>s. s\<lparr>status := 2\<rparr>) sample_pool\<rparr>\<rparr>"

text \<open>A request inside the dialog the sample engine holds, sent by the other side.\<close>

definition sample_in_dialog :: request where
  "sample_in_dialog =
     \<lparr>method = BYE, ruri_user = Some ''alice'', call_id = ''c1'', from_tag = Some ''tb'',
      to_tag = Some ''ta''\<rparr>"

text \<open>
  A request whose call-id and tags spell the name of a member of \<^verbatim>\<open>Object.prototype\<close>.
\<close>

definition inherited_request :: "sip_method \<Rightarrow> request" where
  "inherited_request m =
     \<lparr>method = m, ruri_user = Some ''alice'', call_id = ''to'', from_tag = Some ''Str'',
      to_tag = Some ''ing''\<rparr>"

text \<open>
  The sample engine on its last server: every other entry of the pool has failed, and
  the transport is connected to the third.
\<close>

definition last_server_ua :: ua where
  "last_server_ua =
     sample_ua\<lparr>configuration :=
       sample_cfg\<lparr>outbound_proxy_set :=
         (map (\<lambda>s. s\<lparr>status := 2\<rparr>) sample_pool)[2 := sample_pool ! 2]\<rparr>\<rparr>"

text \<open>
  Two histories of an engine with a single server: connected, then stopped by the user;
  and failed on its only server.
\<close>

definition single_cfg :: configuration where
  "single_cfg = sample_cfg\<lparr>outbound_proxy_set := [sample_pool ! 0]\<rparr>"

definition stopped_ua :: ua where
  "stopped_ua =
     snd (snd (stop (snd (onTransportConnected sample_c sample_env \<lparr>server = 0\<rparr>
                            (UA_new single_cfg)))))"

definition failed_ua :: ua where
  "failed_ua = snd (onTransportError sample_c (1/2) \<lparr>server = 0\<rparr> (UA_new single_cfg))"

section \<open>Failover selection\<close>

text \<open>
  What the loop of \<^verbatim>\<open>getNextWsServer\<close> keeps while it walks the pool: every candidate
  collected so far is an entry already seen, is not excluded, and weighs at least as much
  as every entry seen that is not excluded; the array is empty only while everything seen
  is excluded.
\<close>

lemma pushCandidate_inv:
  assumes sub: "set cs \<subseteq> set xs"
    and live: "\<forall>p\<in>set cs. \<not> excluded (snd p)"
    and best: "\<forall>p\<in>set cs. \<forall>q\<in>set xs. \<not> excluded (snd q) \<longrightarrow> weight (snd q) \<le> weight (snd p)"
    and none: "cs = [] \<longrightarrow> (\<forall>q\<in>set xs. excluded (snd q))"
  shows "set (pushCandidate cs x) \<subseteq> set (xs @ [x])
       \<and> (\<forall>p\<in>set (pushCandidate cs x). \<not> excluded (snd p))
       \<and> (\<forall>p\<in>set (pushCandidate cs x). \<forall>q\<in>set (xs @ [x]).
             \<not> excluded (snd q) \<longrightarrow> weight (snd q) \<le> weight (snd p))
       \<and> (pushCandidate cs x = [] \<longrightarrow> (\<forall>q\<in>set (xs @ [x]). excluded (snd q)))"
proof (cases "excluded (snd x)")
  case True
  then have "pushCandidate cs x = cs" by (simp add: pushCandidate_def excluded_def)
  with True sub live best none show ?thesis by auto
next
  case live_x: False
  show ?thesis
  proof (cases cs)
    case Nil
    then have "pushCandidate cs x = [x]" using live_x by (simp add: pushCandidate_def excluded_def)
    with Nil live_x none show ?thesis by auto
  next
    case (Cons c cs')
    then have c_in: "c \<in> set cs" and c0: "cs ! 0 = c" by simp_all
    have same: "\<forall>p\<in>set cs. weight (snd p) = weight (snd c)"
    proof
      fix p assume p: "p \<in> set cs"
      from p c_in sub live best have "weight (snd p) \<le> weight (snd c)" "weight (snd c) \<le> weight (snd p)"
        by (meson subsetD)+
      then show "weight (snd p) = weight (snd c)" by simp
    qed
    consider (gt) "weight (snd x) > weight (snd c)" | (eq) "weight (snd x) = weight (snd c)"
      | (lt) "weight (snd x) < weight (snd c)" by linarith
    then show ?thesis
    proof cases
      case gt
      then have r: "pushCandidate cs x = [x]"
        using live_x Cons by (simp add: pushCandidate_def excluded_def)
      have "\<forall>q\<in>set xs. \<not> excluded (snd q) \<longrightarrow> weight (snd q) \<le> weight (snd x)"
        using best c_in gt by fastforce
      with r live_x show ?thesis by auto
    next
      case eq
      then have r: "pushCandidate cs x = cs @ [x]"
        using live_x Cons by (simp add: pushCandidate_def excluded_def)
      have "\<forall>q\<in>set xs. \<not> excluded (snd q) \<longrightarrow> weight (snd q) \<le> weight (snd x)"
        using best c_in eq by fastforce
      moreover have "\<forall>p\<in>set cs. weight (snd x) \<le> weight (snd p)"
        using same eq by simp
      ultimately show ?thesis using r live_x sub live best by auto
    next
      case lt
      then have r: "pushCandidate cs x = cs"
        using live_x Cons by (simp add: pushCandidate_def excluded_def)
      have "\<forall>p\<in>set cs. weight (snd x) \<le> weight (snd p)"
        using same lt by simp
      then show ?thesis using r sub live best Cons by auto
    qed
  qed
qed

lemma foldl_pushCandidate_inv:
  "set (foldl pushCandidate [] xs) \<subseteq> set xs
   \<and> (\<forall>p\<in>set (foldl pushCandidate [] xs). \<not> excluded (snd p))
   \<and> (\<forall>p\<in>set (foldl pushCandidate [] xs). \<forall>q\<in>set xs.
         \<not> excluded (snd q) \<longrightarrow> weight (snd q) \<le> weight (snd p))
   \<and> (foldl pushCandidate [] xs = [] \<longrightarrow> (\<forall>q\<in>set xs. excluded (snd q)))"
proof (induction xs rule: rev_induct)
  case Nil
  show ?case by simp
next
  case (snoc x xs)
  have "foldl pushCandidate [] (xs @ [x]) = pushCandidate (foldl pushCandidate [] xs) x"
    by simp
  with pushCandidate_inv [of "foldl pushCandidate [] xs" xs x] snoc.IH
  show ?case by presburger
qed

lemma collectCandidates_member:
  assumes "p \<in> set (collectCandidates pool)"
  shows "fst p < length pool \<and> pool ! fst p = snd p \<and> \<not> excluded (snd p)
         \<and> weight (snd p) = max_weight pool"
proof -
  let ?xs = "enumerate 0 pool"
  from assms have p_cs: "p \<in> set (foldl pushCandidate [] ?xs)"
    by (simp add: collectCandidates_def)
  with foldl_pushCandidate_inv [of ?xs] have p_in: "p \<in> set ?xs"
    and p_live: "\<not> excluded (snd p)"
    and p_best: "\<forall>q\<in>set ?xs. \<not> excluded (snd q) \<longrightarrow> weight (snd q) \<le> weight (snd p)"
    by blast+
  from p_in have idx: "fst p < length pool" "pool ! fst p = snd p"
    by (simp_all add: in_set_enumerate_eq)
  let ?S = "{s \<in> set pool. \<not> excluded s}"
  have "snd p \<in> ?S" using idx p_live by (metis (mono_tags, lifting) mem_Collect_eq nth_mem)
  moreover have "\<forall>s\<in>?S. weight s \<le> weight (snd p)"
  proof
    fix s assume "s \<in> ?S"
    then obtain i where i: "i < length pool" "pool ! i = s" and s: "\<not> excluded s"
      by (auto simp: in_set_conv_nth)
    then have "(i, s) \<in> set ?xs" by (simp add: in_set_enumerate_eq)
    with p_best s show "weight s \<le> weight (snd p)" by fastforce
  qed
  ultimately have "Max (weight ` ?S) = weight (snd p)"
    by (intro Max_eqI) auto
  with idx p_live show ?thesis by (simp add: max_weight_def)
qed

lemma collectCandidates_empty:
  "collectCandidates pool = [] \<longleftrightarrow> (\<forall>s\<in>set pool. excluded s)"
proof
  assume e: "collectCandidates pool = []"
  show "\<forall>s\<in>set pool. excluded s"
  proof
    fix s assume "s \<in> set pool"
    then obtain i where "i < length pool" "pool ! i = s" by (auto simp: in_set_conv_nth)
    then have "(i, s) \<in> set (enumerate 0 pool)" by (simp add: in_set_enumerate_eq)
    with e foldl_pushCandidate_inv [of "enumerate 0 pool"] show "excluded s"
      by (fastforce simp: collectCandidates_def)
  qed
next
  assume all: "\<forall>s\<in>set pool. excluded s"
  show "collectCandidates pool = []"
  proof (rule ccontr)
    assume "collectCandidates pool \<noteq> []"
    then obtain p where "p \<in> set (collectCandidates pool)" by (cases "collectCandidates pool") auto
    from collectCandidates_member [OF this] all show False by (metis nth_mem)
  qed
qed

lemma sample_candidates:
  "collectCandidates sample_pool = [(2, sample_pool ! 2), (3, sample_pool ! 3)]"
  by (simp add: collectCandidates_def sample_pool_def pushCandidate_def enumerate_eq_zip upt_rec)

lemma sample_pick: "getNextWsServer (1/2) sample_ua = (Some 3, sample_ua)"
  by (simp add: getNextWsServer_def Let_def sample_candidates)
     (simp add: sample_ua_def sample_cfg_def sample_candidates)

text \<open>
  Claim C3. Whatever the random draw, \<^verbatim>\<open>getNextWsServer\<close> leaves the state as it was;
  an entry it returns is in the pool, does not have status 2 and has the largest weight
  among the entries whose status is not 2; when every entry has status 2 it returns
  nothing. With a draw in the range of \<^verbatim>\<open>Math.random\<close> and an entry that is not
  excluded, it does return one.
\<close>

theorem getNextWsServer_selects:
  "getNextWsServer r u = (res, u') \<Longrightarrow>
     u' = u \<and>
     (\<forall>i. res = Some i \<longrightarrow>
        i < length (pool_of u) \<and> \<not> excluded (pool_of u ! i) \<and>
        weight (pool_of u ! i) = max_weight (pool_of u)) \<and>
     ((\<forall>s\<in>set (pool_of u). excluded s) \<longrightarrow> res = None) \<and>
     (0 \<le> r \<and> r < 1 \<and> (\<exists>s\<in>set (pool_of u). \<not> excluded s) \<longrightarrow> res \<noteq> None)"
proof -
  assume run: "getNextWsServer r u = (res, u')"
  let ?cs = "collectCandidates (pool_of u)"
  let ?idx = "\<lfloor>r * real (length ?cs)\<rfloor>"
  have frame: "u' = u"
    using run by (simp add: getNextWsServer_def Let_def split: if_splits)
  have some: "\<forall>i. res = Some i \<longrightarrow>
        i < length (pool_of u) \<and> \<not> excluded (pool_of u ! i) \<and>
        weight (pool_of u ! i) = max_weight (pool_of u)"
  proof (intro allI impI)
    fix i assume "res = Some i"
    with run have inb: "0 \<le> ?idx" "?idx < int (length ?cs)" and i: "i = fst (?cs ! nat ?idx)"
      by (auto simp: getNextWsServer_def Let_def split: if_splits)
    from inb have "?cs ! nat ?idx \<in> set ?cs" by (intro nth_mem) linarith
    from collectCandidates_member [OF this] i
    show "i < length (pool_of u) \<and> \<not> excluded (pool_of u ! i) \<and>
        weight (pool_of u ! i) = max_weight (pool_of u)" by simp
  qed
  have none: "(\<forall>s\<in>set (pool_of u). excluded s) \<longrightarrow> res = None"
  proof
    assume "\<forall>s\<in>set (pool_of u). excluded s"
    then have "?cs = []" by (simp add: collectCandidates_empty)
    with run show "res = None" by (simp add: getNextWsServer_def Let_def)
  qed
  have live: "0 \<le> r \<and> r < 1 \<and> (\<exists>s\<in>set (pool_of u). \<not> excluded s) \<longrightarrow> res \<noteq> None"
  proof
    assume a: "0 \<le> r \<and> r < 1 \<and> (\<exists>s\<in>set (pool_of u). \<not> excluded s)"
    then have ne: "?cs \<noteq> []" by (simp add: collectCandidates_empty)
    then have pos: "0 < real (length ?cs)" by simp
    from a pos have "0 \<le> r * real (length ?cs)" by simp
    then have lo: "0 \<le> ?idx" by simp
    from a pos have "r * real (length ?cs) < real (length ?cs)" by simp
    then have hi: "?idx < int (length ?cs)" by (simp add: floor_less_iff)
    from lo hi run show "res \<noteq> None" by (auto simp: getNextWsServer_def Let_def)
  qed
  from frame some none live show ?thesis by blast
qed

theorem getNextWsServer_selects_witness:
  "getNextWsServer (1/2) sample_ua = (Some 3, sample_ua) \<and>
   3 < length (pool_of sample_ua) \<and>
   \<not> excluded (pool_of sample_ua ! 3) \<and>
   weight (pool_of sample_ua ! 3) = max_weight (pool_of sample_ua) \<and>
   max_weight (pool_of sample_ua) = 3 \<and>
   (\<exists>s\<in>set (pool_of sample_ua). \<not> excluded s) \<and>
   list_all excluded (pool_of exhausted_ua) \<and>
   getNextWsServer (1/2) exhausted_ua = (None, exhausted_ua)"
proof -
  have live: "\<exists>s\<in>set (pool_of sample_ua). \<not> excluded s"
    by (simp add: sample_ua_def sample_cfg_def sample_pool_def excluded_def)
  have dead: "\<forall>s\<in>set (pool_of exhausted_ua). excluded s"
    by (simp add: exhausted_ua_def excluded_def)
  have w3: "weight (pool_of sample_ua ! 3) = 3"
    by (simp add: sample_ua_def sample_cfg_def sample_pool_def)
  from getNextWsServer_selects [OF sample_pick] w3
  have picked: "3 < length (pool_of sample_ua) \<and> \<not> excluded (pool_of sample_ua ! 3) \<and>
      weight (pool_of sample_ua ! 3) = max_weight (pool_of sample_ua) \<and>
      max_weight (pool_of sample_ua) = 3"
    by simp
  obtain res u' where run: "getNextWsServer (1/2) exhausted_ua = (res, u')"
    by (cases "getNextWsServer (1/2) exhausted_ua")
  from getNextWsServer_selects [OF run] dead have "res = None" "u' = exhausted_ua"
    by blast+
  with run have none: "getNextWsServer (1/2) exhausted_ua = (None, exhausted_ua)"
    by simp
  from dead have dead': "list_all excluded (pool_of exhausted_ua)"
    by (simp add: list_all_iff)
  from sample_pick picked live dead' none show ?thesis by blast
qed

section \<open>Dialog lookup\<close>

text \<open>
  Away from the names \<^verbatim>\<open>Object.prototype\<close> holds, \<^verbatim>\<open>findDialog\<close> is a lookup in
  the registry under the two orders of the tags: for a request with call-id \<open>C\<close>, from
  tag \<open>A\<close> and to tag \<open>B\<close> it gives the dialog stored under \<open>C + A + B\<close> if there
  is one, else the dialog stored under \<open>C + B + A\<close> if there is one, else nothing.
\<close>

lemma get_property_own:
  "key \<notin> set Object_prototype \<Longrightarrow> get_property obj key = map_option Stored (map_of obj key)"
  by (simp add: get_property_def split: option.splits)

lemma get_property_stored: "map_of obj key = Some v \<Longrightarrow> get_property obj key = Some (Stored v)"
  by (simp add: get_property_def)

lemma findDialog_own_properties:
  assumes "call_id req = C" and "from_tag req = Some A" and "to_tag req = Some B"
    and "C @ A @ B \<notin> set Object_prototype" and "C @ B @ A \<notin> set Object_prototype"
  shows "findDialog u req =
           (case map_of (dialogs u) (C @ A @ B) of
              Some d \<Rightarrow> Some (Stored d)
            | None \<Rightarrow> map_option Stored (map_of (dialogs u) (C @ B @ A)))"
  using assms
  by (simp add: findDialog_def js_string_def Let_def get_property_own split: option.splits)

lemma findDialog_sample: "findDialog sample_ua sample_in_dialog = Some (Stored (Dialog 1))"
  by (simp add: findDialog_def js_string_def Let_def get_property_def Object_prototype_def
      sample_ua_def sample_in_dialog_def)

text \<open>
  Claim C4. The registry is a plain object, so a read under a key that is the name of
  a member of \<^verbatim>\<open>Object.prototype\<close> gives that member when nothing is stored under the
  key. For the call-id \<open>to\<close>, the from tag \<open>Str\<close> and the to tag \<open>ing\<close>, in an
  engine that has just been constructed and holds no dialog at all, \<^verbatim>\<open>findDialog\<close>
  returns the function \<^verbatim>\<open>Object.prototype.toString\<close> and not \<^verbatim>\<open>null\<close>.
\<close>

theorem findDialog_inherited_member:
  "dialogs (UA_new sample_cfg) = [] \<and>
   call_id (inherited_request BYE) = ''to'' \<and>
   from_tag (inherited_request BYE) = Some ''Str'' \<and>
   to_tag (inherited_request BYE) = Some ''ing'' \<and>
   findDialog (UA_new sample_cfg) (inherited_request BYE) = Some (Inherited ''toString'')"
  by (simp add: findDialog_def js_string_def Let_def get_property_def Object_prototype_def
      UA_new_def inherited_request_def)

section \<open>Request reception\<close>

text \<open>
  Claim C5. A request whose target user is not the configured user gets one stateless
  404 reply and nothing else: the only call issued is that reply, so no transaction is
  created and neither registry is looked up, and the state is returned unchanged. This
  holds whatever the registries, the registration and the transaction layer are, and the
  method completes normally.
\<close>

theorem receiveRequest_foreign_user:
  "ruri_user req \<noteq> user (configuration u) \<Longrightarrow>
   receiveRequest c e req u = (Normal, [Reply_sl 404 (REASON_404 c)], u)"
  by (simp add: receiveRequest_def)

theorem receiveRequest_foreign_user_witness:
  "ruri_user ((sample_request INVITE None)\<lparr>ruri_user := Some ''bob''\<rparr>)
     \<noteq> user (configuration sample_ua) \<and>
   receiveRequest sample_c sample_env
     ((sample_request INVITE None)\<lparr>ruri_user := Some ''bob''\<rparr>) sample_ua
     = (Normal, [Reply_sl 404 ''Not Found''], sample_ua)"
  using receiveRequest_foreign_user
    [of "(sample_request INVITE None)\<lparr>ruri_user := Some ''bob''\<rparr>" sample_ua sample_c sample_env]
  by (simp add: sample_request_def sample_ua_def sample_cfg_def sample_c_def)

text \<open>
  The calls of \<^verbatim>\<open>receiveRequest\<close> for a request addressed to the local user that the
  transaction layer does not know: the duplicate check, the transaction, the reply to
  \<open>OPTIONS\<close>, and then one of the two branches, which also decides how the method
  completes.
\<close>

lemma receiveRequest_accepted:
  assumes "ruri_user req = user (configuration u)" and "\<not> checkTransaction e u req"
  shows "fst (snd (receiveRequest c e req u)) =
     CheckTransaction #
       (if method req = INVITE then [NewInviteServerTransaction]
        else if method req \<noteq> ACK then [NewNonInviteServerTransaction] else []) @
       (if method req = OPTIONS
        then [Reply 200 (REASON_200 c)
                [(''Allow'', ALLOWED_METHODS c), (''Accept'', ACCEPTED_BODY_TYPES c)]]
        else []) @
       snd (if \<not> truthy (to_tag req) then initialRequest c e req u else inDialogRequest c req u)"
  using assms by (simp add: receiveRequest_def Let_def)

lemma receiveRequest_accepted_completion:
  assumes "ruri_user req = user (configuration u)" and "\<not> checkTransaction e u req"
  shows "fst (receiveRequest c e req u) =
     fst (if \<not> truthy (to_tag req) then initialRequest c e req u else inDialogRequest c req u)"
  using assms by (simp add: receiveRequest_def Let_def)

lemma receiveRequest_frame: "snd (snd (receiveRequest c e req u)) = u"
  by (simp add: receiveRequest_def Let_def)

lemma initialRequest_replies:
  "replies (snd (initialRequest c e req u)) = [] \<or>
   (\<exists>n rs. replies (snd (initialRequest c e req u)) = [Reply n rs []])"
  by (cases "method req")
     (simp_all add: initialRequest_def replies_def split: option.splits member.splits)

lemma inDialogRequest_replies:
  "replies (snd (inDialogRequest c req u)) = [] \<or>
   (\<exists>n rs. replies (snd (inDialogRequest c req u)) = [Reply n rs []])"
  by (simp add: inDialogRequest_def replies_def split: option.splits member.splits)

lemma initialRequest_no_200: "replies_with 200 (snd (initialRequest c e req u)) = []"
  by (cases "method req")
     (simp_all add: initialRequest_def replies_with_def split: option.splits member.splits)

lemma inDialogRequest_no_200: "replies_with 200 (snd (inDialogRequest c req u)) = []"
  by (simp add: inDialogRequest_def replies_with_def split: option.splits member.splits)

text \<open>
  Every method but \<open>OPTIONS\<close> gets at most one reply: each path of the dispatcher ends
  after the reply it sends.
\<close>

lemma receiveRequest_one_reply:
  assumes "method req \<noteq> OPTIONS"
  shows "length (replies (fst (snd (receiveRequest c e req u)))) \<le> 1"
proof (cases "ruri_user req = user (configuration u) \<and> \<not> checkTransaction e u req")
  case False
  then show ?thesis by (auto simp: receiveRequest_def replies_def)
next
  case True
  then have evs: "replies (fst (snd (receiveRequest c e req u))) =
      (if \<not> truthy (to_tag req) then replies (snd (initialRequest c e req u))
       else replies (snd (inDialogRequest c req u)))"
    using assms by (simp add: receiveRequest_accepted replies_def)
  from initialRequest_replies [of c e req u] inDialogRequest_replies [of c req u]
  show ?thesis unfolding evs by (auto split: if_splits)
qed

text \<open>
  An \<open>OPTIONS\<close> request without a to tag always gets two: the 200, and then 410 or
  405 from the branch for initial requests.
\<close>

lemma receiveRequest_OPTIONS_initial:
  assumes "method req = OPTIONS" and "ruri_user req = user (configuration u)"
    and "\<not> checkTransaction e u req" and "\<not> truthy (to_tag req)"
  shows "length (replies (fst (snd (receiveRequest c e req u)))) = 2"
  using assms
  by (simp add: receiveRequest_accepted replies_def initialRequest_def split: option.splits)

text \<open>
  Claim C1. The dispatcher answers an \<open>OPTIONS\<close> request with 200 and then goes on
  into the routing branches, which answer again: here the sample engine, registered,
  receives an \<open>OPTIONS\<close> request without a to tag and sends 200 and then 405.
\<close>

theorem receiveRequest_OPTIONS_replies_twice:
  "replies (fst (snd (receiveRequest sample_c sample_env (sample_request OPTIONS None) sample_ua))) =
     [Reply 200 ''OK''
        [(''Allow'', ''ACK,CANCEL,BYE,OPTIONS,INVITE,MESSAGE''), (''Accept'', ''application/sdp'')],
      Reply 405 ''Method Not Allowed'' []]"
  by (simp add: receiveRequest_def Let_def initialRequest_def replies_def truthy_def
      sample_request_def sample_ua_def sample_cfg_def sample_env_def sample_c_def)

text \<open>
  Claim C2, as it is stated, fails: for an \<open>OPTIONS\<close> request with a to tag that
  matches no dialog, the calls that act on a collaborator are the creation of a server
  transaction, the 200 reply and a 481 reply, not the 200 reply alone.
\<close>

theorem receiveRequest_OPTIONS_counterexample:
  "actions (fst (snd (receiveRequest sample_c sample_env (sample_request OPTIONS (Some ''ty'')) sample_ua))) =
     [NewNonInviteServerTransaction,
      Reply 200 ''OK''
        [(''Allow'', ''ACK,CANCEL,BYE,OPTIONS,INVITE,MESSAGE''), (''Accept'', ''application/sdp'')],
      Reply 481 ''Call/Transaction Does Not Exist'' []] \<and>
   actions (fst (snd (receiveRequest sample_c sample_env (sample_request OPTIONS (Some ''ty'')) sample_ua))) \<noteq>
     [Reply 200 ''OK''
        [(''Allow'', ''ACK,CANCEL,BYE,OPTIONS,INVITE,MESSAGE''), (''Accept'', ''application/sdp'')]]"
  by (simp add: receiveRequest_def Let_def inDialogRequest_def findDialog_def js_string_def
      get_property_def Object_prototype_def actions_def truthy_def
      sample_request_def sample_ua_def sample_cfg_def sample_env_def sample_c_def)

text \<open>
  Claim C2, amended. For an \<open>OPTIONS\<close> request addressed to the local user that is
  not a known retransmission, whatever the to tag, the dialogs and the registration: the
  dispatcher creates a non-INVITE server transaction and then sends a 200 reply with the
  \<open>Allow\<close> and \<open>Accept\<close> headers; these are its first calls after the duplicate
  check, and it sends no other reply with status 200. It assigns no field of the engine.
\<close>

theorem receiveRequest_OPTIONS:
  assumes "method req = OPTIONS"
    and "ruri_user req = user (configuration u)"
    and "\<not> checkTransaction e u req"
  shows "take 3 (fst (snd (receiveRequest c e req u))) =
           [CheckTransaction, NewNonInviteServerTransaction,
            Reply 200 (REASON_200 c)
              [(''Allow'', ALLOWED_METHODS c), (''Accept'', ACCEPTED_BODY_TYPES c)]] \<and>
         replies_with 200 (fst (snd (receiveRequest c e req u))) =
           [Reply 200 (REASON_200 c)
              [(''Allow'', ALLOWED_METHODS c), (''Accept'', ACCEPTED_BODY_TYPES c)]] \<and>
         snd (snd (receiveRequest c e req u)) = u"
proof -
  have first: "take 3 (fst (snd (receiveRequest c e req u))) =
           [CheckTransaction, NewNonInviteServerTransaction,
            Reply 200 (REASON_200 c)
              [(''Allow'', ALLOWED_METHODS c), (''Accept'', ACCEPTED_BODY_TYPES c)]]"
    using assms(1) by (simp add: receiveRequest_accepted [OF assms(2,3)])
  have only: "replies_with 200 (fst (snd (receiveRequest c e req u))) =
           [Reply 200 (REASON_200 c)
              [(''Allow'', ALLOWED_METHODS c), (''Accept'', ACCEPTED_BODY_TYPES c)]]"
  proof -
    have "replies_with 200 (fst (snd (receiveRequest c e req u))) =
        Reply 200 (REASON_200 c) [(''Allow'', ALLOWED_METHODS c), (''Accept'', ACCEPTED_BODY_TYPES c)]
        # replies_with 200
            (snd (if \<not> truthy (to_tag req) then initialRequest c e req u
                  else inDialogRequest c req u))"
      using assms(1) by (simp add: receiveRequest_accepted [OF assms(2,3)] replies_with_def)
    then show ?thesis
      by (simp add: initialRequest_no_200 inDialogRequest_no_200 split: if_splits)
  qed
  from first only receiveRequest_frame show ?thesis by simp
qed

theorem receiveRequest_OPTIONS_witness:
  "method (sample_request OPTIONS None) = OPTIONS \<and>
   ruri_user (sample_request OPTIONS None) = user (configuration sample_ua) \<and>
   \<not> checkTransaction sample_env sample_ua (sample_request OPTIONS None) \<and>
   take 3 (fst (snd (receiveRequest sample_c sample_env (sample_request OPTIONS None) sample_ua))) =
     [CheckTransaction, NewNonInviteServerTransaction,
      Reply 200 ''OK''
        [(''Allow'', ''ACK,CANCEL,BYE,OPTIONS,INVITE,MESSAGE''), (''Accept'', ''application/sdp'')]] \<and>
   replies_with 200 (fst (snd (receiveRequest sample_c sample_env (sample_request OPTIONS None) sample_ua))) =
     [Reply 200 ''OK''
        [(''Allow'', ''ACK,CANCEL,BYE,OPTIONS,INVITE,MESSAGE''), (''Accept'', ''application/sdp'')]]"
proof -
  have h: "method (sample_request OPTIONS None) = OPTIONS"
    "ruri_user (sample_request OPTIONS None) = user (configuration sample_ua)"
    "\<not> checkTransaction sample_env sample_ua (sample_request OPTIONS None)"
    by (simp_all add: sample_request_def sample_ua_def sample_cfg_def sample_env_def)
  have k: "REASON_200 sample_c = ''OK''"
    "ALLOWED_METHODS sample_c = ''ACK,CANCEL,BYE,OPTIONS,INVITE,MESSAGE''"
    "ACCEPTED_BODY_TYPES sample_c = ''application/sdp''"
    by (simp_all add: sample_c_def)
  note r = receiveRequest_OPTIONS [OF h, of sample_c, unfolded k]
  from h r show ?thesis by blast
qed

text \<open>
  When \<^verbatim>\<open>findDialog\<close> returns \<^verbatim>\<open>null\<close> for a request with a to tag, addressed to
  the local user and not a known retransmission, the dispatcher completes normally;
  for a method that is neither \<open>NOTIFY\<close> nor \<open>ACK\<close> one reply with status 481 is
  sent (for every such method but \<open>OPTIONS\<close> it is the only reply), and for \<open>ACK\<close>
  none.
\<close>

lemma receiveRequest_dialog_null:
  assumes "ruri_user req = user (configuration u)"
    and "\<not> checkTransaction e u req"
    and "truthy (to_tag req)"
    and "findDialog u req = None"
  shows "(method req \<noteq> NOTIFY \<and> method req \<noteq> ACK \<longrightarrow>
            fst (receiveRequest c e req u) = Normal \<and>
            replies_with 481 (fst (snd (receiveRequest c e req u))) = [Reply 481 (REASON_481 c) []] \<and>
            (method req \<noteq> OPTIONS \<longrightarrow>
               replies (fst (snd (receiveRequest c e req u))) = [Reply 481 (REASON_481 c) []])) \<and>
         (method req = ACK \<longrightarrow>
            fst (receiveRequest c e req u) = Normal \<and>
            replies (fst (snd (receiveRequest c e req u))) = [])"
proof -
  have route: "method req \<noteq> NOTIFY \<Longrightarrow> inDialogRequest c req u =
      (Normal, FindDialog # (if method req \<noteq> ACK then [Reply 481 (REASON_481 c) []] else []))"
    using assms(4) by (simp add: inDialogRequest_def)
  show ?thesis
    using route assms(3) by (cases "method req")
      (simp_all add: receiveRequest_accepted [OF assms(1,2)]
         receiveRequest_accepted_completion [OF assms(1,2)] replies_def replies_with_def)
qed

text \<open>
  Claim C6. The lookup does not return \<^verbatim>\<open>null\<close> when the key is the name of a member of
  \<^verbatim>\<open>Object.prototype\<close>. The sample engine holds no dialog under either order of the
  call-id \<open>to\<close> and the tags \<open>Str\<close> and \<open>ing\<close>; a \<open>BYE\<close> with them, addressed to
  the local user and not a retransmission, makes \<^verbatim>\<open>findDialog\<close> return the function
  \<^verbatim>\<open>Object.prototype.toString\<close>, on which the dispatcher calls
  \<^verbatim>\<open>receiveRequest\<close>: it throws a \<open>TypeError\<close> after creating the transaction and
  sends no reply, where a 481 is due.
\<close>

theorem receiveRequest_inherited_member:
  "map_of (dialogs sample_ua) (''to'' @ ''Str'' @ ''ing'') = None \<and>
   map_of (dialogs sample_ua) (''to'' @ ''ing'' @ ''Str'') = None \<and>
   ruri_user (inherited_request BYE) = user (configuration sample_ua) \<and>
   \<not> checkTransaction sample_env sample_ua (inherited_request BYE) \<and>
   truthy (to_tag (inherited_request BYE)) \<and>
   receiveRequest sample_c sample_env (inherited_request BYE) sample_ua =
     (Throw TypeError, [CheckTransaction, NewNonInviteServerTransaction, FindDialog], sample_ua) \<and>
   replies (fst (snd (receiveRequest sample_c sample_env (inherited_request BYE) sample_ua))) = []"
  by (simp add: receiveRequest_def Let_def inDialogRequest_def findDialog_def js_string_def
      get_property_def Object_prototype_def truthy_def replies_def
      inherited_request_def sample_ua_def sample_cfg_def sample_env_def)

section \<open>Transport events\<close>

lemma setServerStatus_fields [simp]:
  "ua_status (setServerStatus t s u) = ua_status u"
  "ua_error (setServerStatus t s u) = ua_error u"
  "sessions (setServerStatus t s u) = sessions u"
  "registrator (setServerStatus t s u) = registrator u"
  "transport (setServerStatus t s u) = transport u"
  "auto_register (configuration (setServerStatus t s u)) = auto_register (configuration u)"
  by (simp_all add: setServerStatus_def)

lemma setServerStatus_pool:
  "pool_of (setServerStatus t s u) = (pool_of u)[server t := (pool_of u ! server t)\<lparr>status := s\<rparr>]"
  by (simp add: setServerStatus_def)

lemma getNextWsServer_frame: "snd (getNextWsServer r u) = u"
  by (simp add: getNextWsServer_def Let_def)

text \<open>The branch of \<^verbatim>\<open>onTransportError\<close> taken when no server is left.\<close>

lemma onTransportError_no_server:
  assumes "fst (getNextWsServer r (setServerStatus t (WS_SERVER_ERROR c) u)) = None"
  shows "onTransportError c r t u =
           (map (\<lambda>kv. SessionOnTransportError (snd kv)) (sessions u)
              @ (case registrator u of None \<Rightarrow> [] | Some rg \<Rightarrow> [RegistratorOnTransportClosed])
              @ [Emit ''disconnect''],
            (setServerStatus t (WS_SERVER_ERROR c) u)
              \<lparr>ua_status := UA_STATUS_NOT_READY, ua_error := Some UA_NETWORK_ERROR\<rparr>)"
proof -
  let ?u1 = "setServerStatus t (WS_SERVER_ERROR c) u"
  from assms getNextWsServer_frame [of r ?u1] have pick: "getNextWsServer r ?u1 = (None, ?u1)"
    by (metis prod.collapse)
  show ?thesis
    by (simp add: onTransportError_def Let_def pick closeSessionsOnTransportError_def)
qed

lemma last_server_failed:
  "fst (getNextWsServer r (setServerStatus \<lparr>server = 2\<rparr> (WS_SERVER_ERROR sample_c) last_server_ua)) = None"
proof -
  have "list_all excluded (pool_of (setServerStatus \<lparr>server = 2\<rparr> (WS_SERVER_ERROR sample_c) last_server_ua))"
    by (simp add: setServerStatus_pool last_server_ua_def sample_pool_def sample_c_def excluded_def)
  then have "collectCandidates (pool_of (setServerStatus \<lparr>server = 2\<rparr> (WS_SERVER_ERROR sample_c) last_server_ua)) = []"
    by (simp add: collectCandidates_empty list_all_iff)
  then show ?thesis by (simp add: getNextWsServer_def Let_def)
qed

text \<open>
  Claim C7. When the transport reports an error and, the failed entry marked,
  \<^verbatim>\<open>getNextWsServer\<close> returns nothing: every session in the registry is told of the
  transport error, then the registrator (if there is one) is told the transport is
  closed, then \<open>disconnect\<close> is emitted, once; the status becomes
  \<open>UA_STATUS_NOT_READY\<close> and the error cause \<open>UA_NETWORK_ERROR\<close>.
\<close>

theorem onTransportError_exhausted:
  assumes "fst (getNextWsServer r (setServerStatus t (WS_SERVER_ERROR c) u)) = None"
  shows "onTransportError c r t u =
           (map (\<lambda>kv. SessionOnTransportError (snd kv)) (sessions u)
              @ (case registrator u of None \<Rightarrow> [] | Some rg \<Rightarrow> [RegistratorOnTransportClosed])
              @ [Emit ''disconnect''],
            (setServerStatus t (WS_SERVER_ERROR c) u)
              \<lparr>ua_status := UA_STATUS_NOT_READY, ua_error := Some UA_NETWORK_ERROR\<rparr>) \<and>
         ua_status (snd (onTransportError c r t u)) = UA_STATUS_NOT_READY \<and>
         ua_error (snd (onTransportError c r t u)) = Some UA_NETWORK_ERROR \<and>
         filter (\<lambda>ev. ev = Emit ''disconnect'') (fst (onTransportError c r t u)) = [Emit ''disconnect'']"
proof -
  note run = onTransportError_no_server [OF assms]
  have once: "filter (\<lambda>ev. ev = Emit ''disconnect'') (fst (onTransportError c r t u)) = [Emit ''disconnect'']"
    by (simp add: run filter_map comp_def split: option.splits)
  from run once show ?thesis by simp
qed

theorem onTransportError_exhausted_witness:
  "fst (getNextWsServer (1/2)
          (setServerStatus \<lparr>server = 2\<rparr> (WS_SERVER_ERROR sample_c) last_server_ua)) = None \<and>
   fst (onTransportError sample_c (1/2) \<lparr>server = 2\<rparr> last_server_ua) =
     [SessionOnTransportError (Session 1), SessionOnTransportError (Session 1),
      RegistratorOnTransportClosed, Emit ''disconnect''] \<and>
   ua_status (snd (onTransportError sample_c (1/2) \<lparr>server = 2\<rparr> last_server_ua)) = UA_STATUS_NOT_READY \<and>
   ua_error (snd (onTransportError sample_c (1/2) \<lparr>server = 2\<rparr> last_server_ua)) = Some UA_NETWORK_ERROR"
proof -
  have sess: "sessions last_server_ua = [(''c1ta'', Session 1), (''c1tb'', Session 1)]"
    and reg: "registrator last_server_ua = Some \<lparr>registered = True\<rparr>"
    by (simp_all add: last_server_ua_def sample_ua_def)
  from onTransportError_exhausted [OF last_server_failed, of "1/2"] sess reg last_server_failed [of "1/2"]
  show ?thesis by simp
qed

text \<open>
  In every state the engine can be in, an error cause is recorded only while the status
  is \<open>UA_STATUS_NOT_READY\<close>: \<^verbatim>\<open>onTransportError\<close> writes the two together, and
  \<^verbatim>\<open>stop\<close> and \<^verbatim>\<open>start\<close> move between statuses that carry no cause.
\<close>

lemma reachable_status_error:
  "reachable c u \<Longrightarrow> ua_status u \<noteq> UA_STATUS_NOT_READY \<Longrightarrow> ua_error u = None"
proof (induction rule: reachable.induct)
  case (r_new cfg)
  show ?case by (simp add: UA_new_def)
next
  case (r_register u k evs u')
  then show ?case by (auto simp: register_def split: if_splits option.splits)
next
  case (r_deregister u b k evs u')
  then show ?case by (auto simp: deregister_def split: if_splits option.splits)
next
  case (r_call u e target k evs u')
  then show ?case by (auto simp: call_def Let_def split: if_splits)
next
  case (r_message u e target k evs u')
  then show ?case by (auto simp: message_def Let_def split: if_splits)
next
  case (r_stop u k evs u')
  then show ?case by (auto simp: stop_def split: if_splits)
next
  case (r_start u r k evs u')
  from getNextWsServer_frame [of r u] have "getNextWsServer r u = (fst (getNextWsServer r u), u)"
    by (metis prod.collapse)
  with r_start show ?case
    by (auto simp: start_def split: if_splits option.splits prod.splits)
next
  case (r_networkIsReady u k evs u')
  then show ?case by (auto simp: networkIsReady_def split: if_splits option.splits)
next
  case (r_closed u t evs u')
  then show ?case
    by (auto simp: onTransportClosed_def closeSessionsOnTransportError_def Let_def split: if_splits)
next
  case (r_error u r t evs u')
  let ?u1 = "setServerStatus t (WS_SERVER_ERROR c) u"
  from getNextWsServer_frame [of r ?u1] have "getNextWsServer r ?u1 = (fst (getNextWsServer r ?u1), ?u1)"
    by (metis prod.collapse)
  with r_error show ?case
    by (auto simp: onTransportError_def closeSessionsOnTransportError_def Let_def
        split: option.splits prod.splits)
next
  case (r_connected u e t evs u')
  then show ?case
    by (auto simp: onTransportConnected_def Let_def split: if_splits option.splits)
next
  case (r_request u e req k evs u')
  then show ?case by (auto simp: receiveRequest_def Let_def split: if_splits)
next
  case (r_collaborators u ds ss as t1 t2 t3 t4 g b)
  then show ?case by simp
qed

lemma reachable_connected: "reachable c u \<Longrightarrow> reachable c (snd (onTransportConnected c e t u))"
  by (metis r_connected prod.collapse)

lemma reachable_stop: "reachable c u \<Longrightarrow> reachable c (snd (snd (stop u)))"
  by (metis r_stop prod.collapse)

lemma reachable_error: "reachable c u \<Longrightarrow> reachable c (snd (onTransportError c r t u))"
  by (metis r_error prod.collapse)

lemma stopped_ua_eq:
  "stopped_ua =
     (UA_new single_cfg)\<lparr>transport := Some \<lparr>server = 0\<rparr>,
        registrator := Some \<lparr>registered = False\<rparr>,
        ua_status := UA_STATUS_USER_CLOSED, shutdownGraceTimer := True\<rparr>"
  by (simp add: stopped_ua_def onTransportConnected_def stop_def setServerStatus_def Let_def
      UA_new_def single_cfg_def sample_cfg_def sample_pool_def sample_c_def sample_env_def)

lemma failed_ua_eq:
  "failed_ua =
     (setServerStatus \<lparr>server = 0\<rparr> 2 (UA_new single_cfg))
        \<lparr>ua_status := UA_STATUS_NOT_READY, ua_error := Some UA_NETWORK_ERROR\<rparr>"
proof -
  have "list_all excluded (pool_of (setServerStatus \<lparr>server = 0\<rparr> (WS_SERVER_ERROR sample_c) (UA_new single_cfg)))"
    by (simp add: setServerStatus_pool UA_new_def single_cfg_def sample_cfg_def sample_pool_def
        sample_c_def excluded_def)
  then have "collectCandidates (pool_of (setServerStatus \<lparr>server = 0\<rparr> (WS_SERVER_ERROR sample_c) (UA_new single_cfg))) = []"
    by (simp add: collectCandidates_empty list_all_iff)
  then have "fst (getNextWsServer (1/2) (setServerStatus \<lparr>server = 0\<rparr> (WS_SERVER_ERROR sample_c) (UA_new single_cfg))) = None"
    by (simp add: getNextWsServer_def Let_def)
  from onTransportError_no_server [OF this] show ?thesis
    by (simp add: failed_ua_def sample_c_def)
qed

text \<open>
  Claim C8. When the transport reports a connection, in any state the engine can be in
  and for a transport whose server is an entry of the pool: that entry gets the status
  \<open>WS_SERVER_READY\<close>, and no error cause is recorded afterwards. If the status was
  \<open>UA_STATUS_USER_CLOSED\<close>, nothing else happens: no call is issued (neither to the
  registrator nor \<open>connect\<close> to the listeners), the status stays
  \<open>UA_STATUS_USER_CLOSED\<close> and the registrator is the one before. In that status the
  handler returns before the assignment that clears the cause; there is none to clear,
  by the invariant above.
\<close>

theorem onTransportConnected_effect:
  assumes "reachable c u" and "server t < length (pool_of u)"
  shows "status (pool_of (snd (onTransportConnected c e t u)) ! server t) = WS_SERVER_READY c \<and>
         ua_error (snd (onTransportConnected c e t u)) = None \<and>
         (ua_status u = UA_STATUS_USER_CLOSED \<longrightarrow>
            onTransportConnected c e t u =
              ([], setServerStatus t (WS_SERVER_READY c) (u\<lparr>transport := Some t\<rparr>)) \<and>
            ua_status (snd (onTransportConnected c e t u)) = UA_STATUS_USER_CLOSED \<and>
            registrator (snd (onTransportConnected c e t u)) = registrator u)"
proof -
  let ?u1 = "setServerStatus t (WS_SERVER_READY c) (u\<lparr>transport := Some t\<rparr>)"
  have marked: "status (pool_of ?u1 ! server t) = WS_SERVER_READY c"
    using assms(2) by (simp add: setServerStatus_pool)
  have pool: "pool_of (snd (onTransportConnected c e t u)) = pool_of ?u1"
    by (simp add: onTransportConnected_def Let_def split: option.splits)
  have closed: "ua_status u = UA_STATUS_USER_CLOSED \<Longrightarrow> onTransportConnected c e t u = ([], ?u1)"
    by (simp add: onTransportConnected_def Let_def)
  have cleared: "ua_error (snd (onTransportConnected c e t u)) = None"
  proof (cases "ua_status u = UA_STATUS_USER_CLOSED")
    case True
    with reachable_status_error [OF assms(1)] have "ua_error u = None" by simp
    with closed [OF True] show ?thesis by simp
  next
    case False
    then show ?thesis by (simp add: onTransportConnected_def Let_def split: option.splits)
  qed
  from marked pool closed cleared show ?thesis by simp
qed

theorem onTransportConnected_effect_witness:
  "reachable sample_c stopped_ua \<and> reachable sample_c failed_ua \<and>
   server \<lparr>server = 0\<rparr> < length (pool_of stopped_ua) \<and>
   server \<lparr>server = 0\<rparr> < length (pool_of failed_ua) \<and>
   ua_status stopped_ua = UA_STATUS_USER_CLOSED \<and>
   onTransportConnected sample_c sample_env \<lparr>server = 0\<rparr> stopped_ua =
     ([], setServerStatus \<lparr>server = 0\<rparr> 0 stopped_ua) \<and>
   ua_error (snd (onTransportConnected sample_c sample_env \<lparr>server = 0\<rparr> stopped_ua)) = None \<and>
   ua_status (snd (onTransportConnected sample_c sample_env \<lparr>server = 0\<rparr> stopped_ua))
     = UA_STATUS_USER_CLOSED \<and>
   status (pool_of (snd (onTransportConnected sample_c sample_env \<lparr>server = 0\<rparr> stopped_ua)) ! 0) = 0 \<and>
   ua_error failed_ua = Some UA_NETWORK_ERROR \<and>
   status (pool_of failed_ua ! 0) = 2 \<and>
   ua_error (snd (onTransportConnected sample_c sample_env \<lparr>server = 0\<rparr> failed_ua)) = None \<and>
   status (pool_of (snd (onTransportConnected sample_c sample_env \<lparr>server = 0\<rparr> failed_ua)) ! 0) = 0"
proof -
  have r1: "reachable sample_c stopped_ua"
    unfolding stopped_ua_def by (intro reachable_stop reachable_connected r_new)
  have r2: "reachable sample_c failed_ua"
    unfolding failed_ua_def by (intro reachable_error r_new)
  have b1: "server \<lparr>server = 0\<rparr> < length (pool_of stopped_ua)"
    by (simp add: stopped_ua_eq UA_new_def single_cfg_def)
  have b2: "server \<lparr>server = 0\<rparr> < length (pool_of failed_ua)"
    by (simp add: failed_ua_eq setServerStatus_pool UA_new_def single_cfg_def)
  have s1: "ua_status stopped_ua = UA_STATUS_USER_CLOSED"
    by (simp add: stopped_ua_eq)
  have f1: "ua_error failed_ua = Some UA_NETWORK_ERROR" "status (pool_of failed_ua ! 0) = 2"
    by (simp_all add: failed_ua_eq setServerStatus_pool UA_new_def single_cfg_def)
  have same: "stopped_ua\<lparr>transport := Some \<lparr>server = 0\<rparr>\<rparr> = stopped_ua"
    by (simp add: stopped_ua_eq)
  have rdy: "WS_SERVER_READY sample_c = 0"
    by (simp add: sample_c_def)
  have sel: "server \<lparr>server = 0\<rparr> = 0"
    by simp
  note e1 = onTransportConnected_effect [OF r1 b1, of sample_env, unfolded rdy sel same]
  note e2 = onTransportConnected_effect [OF r2 b2, of sample_env, unfolded rdy sel]
  from e1 s1
  have c1: "onTransportConnected sample_c sample_env \<lparr>server = 0\<rparr> stopped_ua =
     ([], setServerStatus \<lparr>server = 0\<rparr> 0 stopped_ua)"
    "ua_error (snd (onTransportConnected sample_c sample_env \<lparr>server = 0\<rparr> stopped_ua)) = None"
    "ua_status (snd (onTransportConnected sample_c sample_env \<lparr>server = 0\<rparr> stopped_ua))
     = UA_STATUS_USER_CLOSED"
    "status (pool_of (snd (onTransportConnected sample_c sample_env \<lparr>server = 0\<rparr> stopped_ua)) ! 0) = 0"
    by blast+
  from e2
  have c2: "ua_error (snd (onTransportConnected sample_c sample_env \<lparr>server = 0\<rparr> failed_ua)) = None"
   "status (pool_of (snd (onTransportConnected sample_c sample_env \<lparr>server = 0\<rparr> failed_ua)) ! 0) = 0"
    by blast+
  from r1 r2 b1 b2 s1 f1 c1 c2 show ?thesis by blast
qed

section \<open>Public operations and the engine status\<close>

text \<open>
  Claim C9. In every status other than \<open>UA_STATUS_READY\<close> each of \<^verbatim>\<open>register\<close>,
  \<^verbatim>\<open>deregister\<close>, \<^verbatim>\<open>call\<close> and \<^verbatim>\<open>message\<close> throws \<open>NotReadyError\<close>, having called
  nothing and changed nothing; in \<open>UA_STATUS_READY\<close> none of the four throws
  \<open>NotReadyError\<close> (they may throw another exception).
\<close>

theorem public_operations_not_ready:
  "(ua_status u \<noteq> UA_STATUS_READY \<longrightarrow>
      register u = (Throw NotReadyError, [], u) \<and>
      deregister b u = (Throw NotReadyError, [], u) \<and>
      call e target u = (Throw NotReadyError, [], u) \<and>
      message e target u = (Throw NotReadyError, [], u)) \<and>
   (ua_status u = UA_STATUS_READY \<longrightarrow>
      fst (register u) \<noteq> Throw NotReadyError \<and>
      fst (deregister b u) \<noteq> Throw NotReadyError \<and>
      fst (call e target u) \<noteq> Throw NotReadyError \<and>
      fst (message e target u) \<noteq> Throw NotReadyError)"
  by (simp add: register_def deregister_def call_def message_def Let_def split: option.splits)

theorem public_operations_not_ready_witness:
  "ua_status (UA_new sample_cfg) \<noteq> UA_STATUS_READY \<and>
   register (UA_new sample_cfg) = (Throw NotReadyError, [], UA_new sample_cfg) \<and>
   deregister True (UA_new sample_cfg) = (Throw NotReadyError, [], UA_new sample_cfg) \<and>
   call sample_env ''bob'' (UA_new sample_cfg) = (Throw NotReadyError, [], UA_new sample_cfg) \<and>
   message sample_env ''bob'' (UA_new sample_cfg) = (Throw NotReadyError, [], UA_new sample_cfg) \<and>
   ua_status sample_ua = UA_STATUS_READY \<and>
   fst (register sample_ua) \<noteq> Throw NotReadyError \<and>
   fst (deregister True sample_ua) \<noteq> Throw NotReadyError \<and>
   fst (call sample_env ''bob'' sample_ua) \<noteq> Throw NotReadyError \<and>
   fst (message sample_env ''bob'' sample_ua) \<noteq> Throw NotReadyError"
proof -
  have init: "ua_status (UA_new sample_cfg) \<noteq> UA_STATUS_READY"
    by (simp add: UA_new_def)
  have ready: "ua_status sample_ua = UA_STATUS_READY"
    by (simp add: sample_ua_def)
  show ?thesis
    using init ready
      public_operations_not_ready [of "UA_new sample_cfg" True sample_env "''bob''"]
      public_operations_not_ready [of sample_ua True sample_env "''bob''"]
    by simp
qed

text \<open>
  Claim C10. \<^verbatim>\<open>stop\<close> in a status other than \<open>UA_STATUS_READY\<close> throws
  \<open>NotReadyError\<close>; it has then issued no call at all (the registrator is not closed, no
  session is terminated, no applicant is closed, no timer is set) and every field,
  the status among them, is as before.
\<close>

theorem stop_not_ready:
  "ua_status u \<noteq> UA_STATUS_READY \<Longrightarrow> stop u = (Throw NotReadyError, [], u)"
  by (simp add: stop_def)

theorem stop_not_ready_witness:
  "ua_status (sample_ua\<lparr>ua_status := UA_STATUS_USER_CLOSED\<rparr>) \<noteq> UA_STATUS_READY \<and>
   stop (sample_ua\<lparr>ua_status := UA_STATUS_USER_CLOSED\<rparr>) =
     (Throw NotReadyError, [], sample_ua\<lparr>ua_status := UA_STATUS_USER_CLOSED\<rparr>)"
proof -
  have closed: "ua_status (sample_ua\<lparr>ua_status := UA_STATUS_USER_CLOSED\<rparr>) \<noteq> UA_STATUS_READY"
    by simp
  show ?thesis
    using closed stop_not_ready [OF closed] by simp
qed

end
